theory Spec2Isabelle
  imports Complex_Main "HOL-Library.Sublist"
begin

section \<open>Python strings\<close>


definition lower_char :: "char \<Rightarrow> char" where
  "lower_char c =
     (let n = (of_char c :: nat) in if 65 \<le> n \<and> n \<le> 90 then char_of (n + 32) else c)"

definition upper_char :: "char \<Rightarrow> char" where
  "upper_char c =
     (let n = (of_char c :: nat) in if 97 \<le> n \<and> n \<le> 122 then char_of (n - 32) else c)"

definition lower :: "string \<Rightarrow> string" where
  \<comment> \<open>\<^verbatim>\<open>s.lower()\<close>\<close>
  "lower s = map lower_char s"

definition upper :: "string \<Rightarrow> string" where
  \<comment> \<open>\<^verbatim>\<open>s.upper()\<close>\<close>
  "upper s = map upper_char s"

definition is_space :: "char \<Rightarrow> bool" where
  \<comment> \<open>\<^verbatim>\<open>c.isspace()\<close> for a code point below 256: tab, line feed, vertical tab, form
      feed, carriage return, the four separators 28 to 31, the space, next line (133)
      and the no-break space (160).\<close>
  "is_space c =
     (let n = (of_char c :: nat)
      in (9 \<le> n \<and> n \<le> 13) \<or> (28 \<le> n \<and> n \<le> 32) \<or> n = 133 \<or> n = 160)"

definition strip :: "string \<Rightarrow> string" where
  \<comment> \<open>\<^verbatim>\<open>s.strip()\<close>\<close>
  "strip s = rev (dropWhile is_space (rev (dropWhile is_space s)))"

definition py_in :: "string \<Rightarrow> string \<Rightarrow> bool" where
  \<comment> \<open>\<^verbatim>\<open>kw in s\<close> on strings: \<open>kw\<close> occurs in \<open>s\<close> as a contiguous substring.\<close>
  "py_in kw s = sublist kw s"

definition any_in :: "string list \<Rightarrow> string \<Rightarrow> bool" where
  \<comment> \<open>\<^verbatim>\<open>any(term in s for term in terms)\<close>\<close>
  "any_in terms s = list_ex (\<lambda>t. py_in t s) terms"

section \<open>Bank and category registries\<close>

text \<open>
  Both processors build their registries in \<^verbatim>\<open>__init__\<close> as dictionaries from a name
  to a list of lowercase patterns. A dictionary keeps insertion order, which is the
  order \<^verbatim>\<open>detect_bank\<close> scans, so the registries are association lists.
\<close>

definition excel_bank_patterns :: "(string \<times> string list) list" where
  \<comment> \<open>\<^verbatim>\<open>UAEBankExcelProcessor.bank_patterns\<close>\<close>
  "excel_bank_patterns =
    [(''ADCB'',
      [''abu dhabi commercial bank'', ''adcb'']),
     (''FAB'',
      [''first abu dhabi bank'', ''fab'']),
     (''ENBD'',
      [''emirates nbd'', ''enbd'']),
     (''MASHREQ'',
      [''mashreq bank'', ''mashreq'']),
     (''CBD'',
      [''commercial bank of dubai'', ''cbd'']),
     (''HSBC'',
      [''hsbc'']),
     (''RAKBANK'',
      [''rak bank'', ''rakbank'']),
     (''ADIB'',
      [''abu dhabi islamic bank'', ''adib'']),
     (''BOA'',
      [''bank of america'', ''bofa'', ''boa'', ''b of a'']),
     (''CHASE'',
      [''chase'', ''jp morgan chase'', ''jpmorgan'']),
     (''WELLS'',
      [''wells fargo'', ''wells'']),
     (''CITI'',
      [''citibank'', ''citi''])]"

definition excel_categories :: "(string \<times> string list) list" where
  \<comment> \<open>\<^verbatim>\<open>UAEBankExcelProcessor.categories\<close>\<close>
  "excel_categories =
    [(''Food & Dining'',
      [''carrefour'', ''lulu'', ''spinneys'', ''choithrams'', ''union coop'',
       ''waitrose'', ''restaurant'', ''cafe'', ''kfc'', ''mcdonald'', ''pizza'',
       ''subway'', ''dominos'', ''starbucks'', ''costa'', ''dunkin'', ''burger'',
       ''food'', ''dining'', ''eat'', ''grocery'', ''supermarket'', ''hypermarket'',
       ''bakery'', ''deli'', ''bistro'', ''catering'', ''takeaway'', ''delivery'',
       ''zomato'', ''talabat'', ''deliveroo'', ''doordash'', ''grubhub'',
       ''uber eats'', ''postmates'', ''chipotle'', ''panera'', ''whole foods'',
       ''trader joe'', ''safeway'', ''kroger'', ''target'', ''walmart'', ''donuts'',
       ''coffee'', ''espresso'', ''bacio di latte'', ''butchery'', ''zinque'',
       ''ralphs'', ''albertsons'', ''vons'', ''pavilions'', ''publix'', ''wegmans'',
       ''harris teeter'']),
     (''Transportation'',
      [''adnoc'', ''eppco'', ''enoc'', ''petrol'', ''fuel'', ''gas'', ''gasoline'',
       ''taxi'', ''uber'', ''careem'', ''metro'', ''bus'', ''rta'', ''parking'',
       ''salik'', ''toll'', ''car wash'', ''transport'', ''emirates'', ''etihad'',
       ''flydubai'', ''air arabia'', ''airline'', ''flight'', ''airport'',
       ''chevron'', ''shell'', ''bp'', ''76'', ''exxon'', ''mobil'', ''lyft'',
       ''parking services'', ''toll roads'', ''valet'']),
     (''Shopping & Retail'',
      [''mall'', ''centrepoint'', ''max'', ''home centre'', ''ikea'', ''ace'',
       ''sharaf dg'', ''jumbo'', ''electronics'', ''clothing'', ''fashion'', ''shop'',
       ''store'', ''retail'', ''amazon'', ''noon'', ''souq'', ''namshi'', ''h&m'',
       ''zara'', ''nike'', ''adidas'', ''apple'', ''samsung'', ''virgin'', ''uniqlo'',
       ''target'', ''walmart'', ''costco'', ''best buy'', ''macy'', ''nordstrom'',
       ''kohls'', ''tj maxx'', ''ross'', ''marshalls'']),
     (''Healthcare'',
      [''hospital'', ''clinic'', ''pharmacy'', ''medical'', ''doctor'', ''health'',
       ''dental'', ''medicare'', ''aster'', ''nmc'', ''mediclinic'',
       ''life pharmacy'', ''boots'', ''aster pharmacy'', ''day today pharmacy'']),
     (''Utilities & Bills'',
      [''dewa'', ''addc'', ''sewa'', ''fewa'', ''etisalat'', ''du'', ''internet'',
       ''mobile'', ''telecom'', ''electricity'', ''water'', ''gas'', ''utility'',
       ''bill'', ''wifi'', ''broadband'', ''phone bill'', ''electric bill'']),
     (''Entertainment'',
      [''cinema'', ''movie'', ''vox'', ''reel'', ''netflix'', ''osn'', ''gaming'',
       ''entertainment'', ''park'', ''beach'', ''attraction'', ''ticket'', ''event'',
       ''spotify'', ''youtube'', ''disney'', ''amazon prime'', ''hulu'', ''shahid'',
       ''disneyland'', ''balloon museum'', ''sawdust festival'', ''museum'',
       ''amusement'']),
     (''Subscriptions & Digital Services'',
      [''netflix'', ''spotify'', ''youtube premium'', ''amazon prime'', ''disney+'',
       ''adobe'', ''microsoft'', ''google'', ''icloud'', ''dropbox'', ''zoom'',
       ''subscription'', ''monthly'', ''annual'', ''recurring'', ''saas'',
       ''software'', ''app store'', ''play store'', ''itunes'', ''office 365'']),
     (''ATM & Cash Withdrawals'',
      [''atm'', ''cash withdrawal'', ''withdrawal'', ''atm withdrawal'',
       ''cash advance'', ''atm fee'', ''withdrawal fee'']),
     (''Banking & Finance'',
      [''transfer'', ''fee'', ''charge'', ''finance'', ''loan'', ''interest'',
       ''bank fee'', ''service charge'', ''maintenance fee'', ''overdraft'',
       ''wire transfer'', ''remittance'', ''exchange'']),
     (''Personal Care'',
      [''salon'', ''spa'', ''barbershop'', ''beauty'', ''cosmetics'', ''skincare'',
       ''haircut'', ''manicure'', ''pedicure'', ''massage'', ''gym'', ''fitness'',
       ''24hourfitness'', ''planet fitness'', ''la fitness'', ''crunch'', ''equinox'',
       ''flex fitness'', ''orangetheory''])]"

definition pdf_categories :: "(string \<times> string list) list" where
  \<comment> \<open>\<^verbatim>\<open>BankStatementPDFProcessor.categories\<close>\<close>
  "pdf_categories =
    [(''Food & Dining'',
      [''carrefour'', ''lulu'', ''spinneys'', ''choithrams'', ''union coop'',
       ''waitrose'', ''restaurant'', ''cafe'', ''kfc'', ''mcdonald'', ''pizza'',
       ''subway'', ''dominos'', ''starbucks'', ''costa'', ''dunkin'', ''burger'',
       ''food'', ''dining'', ''eat'', ''grocery'', ''supermarket'', ''hypermarket'',
       ''bakery'', ''deli'', ''bistro'', ''catering'', ''takeaway'', ''delivery'',
       ''zomato'', ''talabat'', ''deliveroo'', ''doordash'', ''grubhub'',
       ''uber eats'', ''postmates'', ''chipotle'', ''panera'', ''whole foods'',
       ''trader joe'', ''safeway'', ''kroger'', ''target'', ''walmart'', ''donuts'',
       ''coffee'', ''espresso'', ''bacio di latte'', ''butchery'', ''zinque'',
       ''ralphs'', ''albertsons'', ''vons'', ''pavilions'', ''publix'', ''wegmans'']),
     (''Transportation'',
      [''adnoc'', ''eppco'', ''enoc'', ''petrol'', ''fuel'', ''gas'', ''gasoline'',
       ''taxi'', ''uber'', ''careem'', ''metro'', ''bus'', ''rta'', ''parking'',
       ''salik'', ''toll'', ''car wash'', ''transport'', ''emirates'', ''etihad'',
       ''flydubai'', ''air arabia'', ''airline'', ''flight'', ''airport'',
       ''chevron'', ''shell'', ''bp'', ''76'', ''exxon'', ''mobil'', ''lyft'']),
     (''Shopping & Retail'',
      [''mall'', ''centrepoint'', ''max'', ''home centre'', ''ikea'', ''ace'',
       ''sharaf dg'', ''jumbo'', ''electronics'', ''clothing'', ''fashion'', ''shop'',
       ''store'', ''retail'', ''amazon'', ''noon'', ''souq'', ''namshi'', ''h&m'',
       ''zara'', ''nike'', ''adidas'', ''apple'', ''samsung'', ''virgin'', ''uniqlo'',
       ''costco'', ''best buy'', ''macy'', ''nordstrom'']),
     (''Healthcare'',
      [''hospital'', ''clinic'', ''pharmacy'', ''medical'', ''doctor'', ''health'',
       ''dental'', ''medicare'', ''aster'', ''nmc'', ''mediclinic'',
       ''life pharmacy'', ''boots'', ''cvs'', ''walgreens'']),
     (''Utilities & Bills'',
      [''dewa'', ''addc'', ''sewa'', ''fewa'', ''etisalat'', ''du'', ''internet'',
       ''mobile'', ''telecom'', ''electricity'', ''water'', ''utility'', ''bill'',
       ''wifi'', ''broadband'', ''verizon'', ''at&t'', ''t-mobile'']),
     (''Entertainment'',
      [''cinema'', ''movie'', ''vox'', ''reel'', ''netflix'', ''osn'', ''gaming'',
       ''entertainment'', ''park'', ''beach'', ''attraction'', ''ticket'', ''event'',
       ''spotify'', ''youtube'', ''disney'', ''hulu'', ''disneyland'']),
     (''Subscriptions & Digital Services'',
      [''netflix'', ''spotify'', ''youtube premium'', ''amazon prime'', ''disney+'',
       ''adobe'', ''microsoft'', ''google'', ''icloud'', ''dropbox'', ''zoom'',
       ''subscription'', ''saas'', ''office 365'', ''rocket money'']),
     (''ATM & Cash Withdrawals'',
      [''atm'', ''cash withdrawal'', ''withdrawal'', ''cash advance'']),
     (''Banking & Finance'',
      [''transfer'', ''fee'', ''charge'', ''finance'', ''loan'', ''interest'',
       ''bank fee'', ''service charge'', ''wire transfer'', ''zelle'']),
     (''Personal Care'',
      [''salon'', ''spa'', ''barbershop'', ''beauty'', ''cosmetics'', ''skincare'',
       ''gym'', ''fitness'', ''24hourfitness'', ''planet fitness''])]"

definition category_priority :: "string list" where
  \<comment> \<open>The list \<^verbatim>\<open>category_priority\<close>, written the same in both processors.\<close>
  "category_priority =
    [''ATM & Cash Withdrawals'', ''Subscriptions & Digital Services'', ''Food & Dining'',
     ''Transportation'', ''Healthcare'', ''Utilities & Bills'', ''Entertainment'',
     ''Shopping & Retail'', ''Personal Care'', ''Banking & Finance'']"

definition keywords_of :: "(string \<times> string list) list \<Rightarrow> string \<Rightarrow> string list" where
  \<comment> \<open>\<^verbatim>\<open>self.categories[category]\<close>. Every name of \<open>category_priority\<close> is a key of
      both tables (lemmas \<open>excel_priority_keys\<close> and \<open>pdf_priority_keys\<close>), so the
      lookup never raises \<^verbatim>\<open>KeyError\<close> and the default is never read.\<close>
  "keywords_of table category = (case map_of table category of Some ks \<Rightarrow> ks | None \<Rightarrow> [])"

section \<open>Rule-based categorizers\<close>

definition excel_guard :: "string \<Rightarrow> string \<Rightarrow> bool" where
  \<comment> \<open>The validation under \<^verbatim>\<open>if keyword in desc_lower\<close> of the Excel categorizer:
      three categories ask for one more term, the others return at once.\<close>
  "excel_guard category desc_lower =
     (if category = ''ATM & Cash Withdrawals'' then
        any_in [''atm'', ''withdrawal'', ''cash''] desc_lower
      else if category = ''Subscriptions & Digital Services'' then
        any_in [''subscription'', ''monthly'', ''netflix'', ''spotify'', ''prime'', ''office'',
                ''adobe'', ''google'', ''microsoft'', ''icloud''] desc_lower
      else if category = ''Banking & Finance'' then
        any_in [''transfer'', ''fee'', ''charge'', ''interest'', ''maintenance''] desc_lower
      else True)"

fun excel_scan_keywords :: "string \<Rightarrow> string list \<Rightarrow> string \<Rightarrow> bool" where
  \<comment> \<open>The inner loop \<^verbatim>\<open>for keyword in keywords\<close>: True when it returns the category.
      A keyword that matches while the guard fails lets the loop go on.\<close>
  "excel_scan_keywords category [] desc_lower = False"
| "excel_scan_keywords category (keyword # keywords) desc_lower =
     (if py_in keyword desc_lower then
        (if excel_guard category desc_lower then True
         else excel_scan_keywords category keywords desc_lower)
      else excel_scan_keywords category keywords desc_lower)"

fun excel_scan_categories :: "string list \<Rightarrow> string \<Rightarrow> string option" where
  \<comment> \<open>The outer loop \<^verbatim>\<open>for category in category_priority\<close>: the category returned, or
      None when the loop ends without returning.\<close>
  "excel_scan_categories [] desc_lower = None"
| "excel_scan_categories (category # rest) desc_lower =
     (if excel_scan_keywords category (keywords_of excel_categories category) desc_lower
      then Some category
      else excel_scan_categories rest desc_lower)"

definition merchant_patterns :: "(string \<times> string) list" where
  "merchant_patterns =
    [(''CAREEM'', ''Transportation''), (''TALABAT'', ''Food & Dining''),
     (''ZOMATO'', ''Food & Dining''), (''NETFLIX'', ''Subscriptions & Digital Services''),
     (''SPOTIFY'', ''Subscriptions & Digital Services''), (''AMAZON'', ''Shopping & Retail''),
     (''NOON'', ''Shopping & Retail''), (''ADNOC'', ''Transportation''),
     (''ENOC'', ''Transportation''), (''EPPCO'', ''Transportation'')]"

fun scan_merchants :: "(string \<times> string) list \<Rightarrow> string \<Rightarrow> string" where
  \<comment> \<open>\<^verbatim>\<open>for merchant, cat in merchant_patterns.items()\<close>, then the final return.\<close>
  "scan_merchants [] desc_lower = ''Other Expenses''"
| "scan_merchants ((merchant, cat) # rest) desc_lower =
     (if py_in (lower merchant) desc_lower then cat else scan_merchants rest desc_lower)"

definition excel_categorize_transaction :: "string \<Rightarrow> string" where
  \<comment> \<open>\<^verbatim>\<open>UAEBankExcelProcessor.categorize_transaction\<close>\<close>
  "excel_categorize_transaction description =
     (let desc_lower = strip (lower description) in
      case excel_scan_categories category_priority desc_lower of
        Some category \<Rightarrow> category
      | None \<Rightarrow>
          if any_in [''taxi'', ''uber'', ''careem'', ''rta''] desc_lower then ''Transportation''
          else if any_in [''restaurant'', ''cafe'', ''food'', ''dining'', ''eat''] desc_lower
            then ''Food & Dining''
          else if any_in [''mall'', ''shop'', ''store'', ''retail''] desc_lower
            then ''Shopping & Retail''
          else scan_merchants merchant_patterns desc_lower)"

fun pdf_scan_categories :: "string list \<Rightarrow> string \<Rightarrow> string option" where
  \<comment> \<open>The PDF categorizer's two loops: the first keyword found returns its category.\<close>
  "pdf_scan_categories [] desc_lower = None"
| "pdf_scan_categories (category # rest) desc_lower =
     (if any_in (keywords_of pdf_categories category) desc_lower
      then Some category
      else pdf_scan_categories rest desc_lower)"

definition pdf_categorize_transaction :: "string \<Rightarrow> string" where
  \<comment> \<open>\<^verbatim>\<open>BankStatementPDFProcessor.categorize_transaction\<close>\<close>
  "pdf_categorize_transaction description =
     (let desc_lower = strip (lower description) in
      case pdf_scan_categories category_priority desc_lower of
        Some category \<Rightarrow> category
      | None \<Rightarrow> ''Other Expenses'')"

definition rule_labels :: "string list" where
  \<comment> \<open>The labels a rule-based categorizer can return.\<close>
  "rule_labels = category_priority @ [''Other Expenses'']"

section \<open>More of Python's string and number operations\<close>

definition is_digit :: "char \<Rightarrow> bool" where
  \<comment> \<open>\<^verbatim>\<open>\d\<close> of a regular expression, for a code point below 256: the digits 0 to 9.
      On ASCII it is \<^verbatim>\<open>c.isdigit()\<close> as well.\<close>
  "is_digit c = (let n = (of_char c :: nat) in 48 \<le> n \<and> n \<le> 57)"

definition digit_char :: "int \<Rightarrow> char" where
  "digit_char d = char_of (48 + d)"

function str_digits :: "int \<Rightarrow> string" where
  \<comment> \<open>The decimal digits of an integer that is not negative.\<close>
  "str_digits i = (if i < 10 then [digit_char i] else str_digits (i div 10) @ [digit_char (i mod 10)])"
  by pat_completeness auto
termination
  by (relation "measure nat") auto

declare str_digits.simps [simp del]

definition str_nat :: "nat \<Rightarrow> string" where
  \<comment> \<open>\<^verbatim>\<open>str(n)\<close> for a natural number, as in \<^verbatim>\<open>f"{idx}"\<close>\<close>
  "str_nat n = str_digits (int n)"

definition str_int :: "int \<Rightarrow> string" where
  \<comment> \<open>\<^verbatim>\<open>str(i)\<close> for an integer\<close>
  "str_int i = (if i < 0 then CHR ''-'' # str_digits (- i) else str_digits i)"

definition digit_val :: "char \<Rightarrow> int" where
  "digit_val c = of_char c - 48"

definition int_of_digits :: "string \<Rightarrow> int" where
  \<comment> \<open>\<^verbatim>\<open>int(s)\<close> for a string of decimal digits, as the groups of the date patterns are\<close>
  "int_of_digits s = foldl (\<lambda>acc c. 10 * acc + digit_val c) 0 s"

definition zfill :: "nat \<Rightarrow> string \<Rightarrow> string" where
  \<comment> \<open>\<^verbatim>\<open>s.zfill(width)\<close>: zeros on the left up to the width, after a leading sign\<close>
  "zfill width s =
     (let pad = replicate (width - length s) (CHR ''0'') in
      case s of
        [] \<Rightarrow> pad
      | c # cs \<Rightarrow> if c = CHR ''+'' \<or> c = CHR ''-'' then c # pad @ cs else pad @ s)"

definition remove_char :: "char \<Rightarrow> string \<Rightarrow> string" where
  \<comment> \<open>\<^verbatim>\<open>s.replace(c, '')\<close> for a single character \<open>c\<close>\<close>
  "remove_char c s = filter (\<lambda>x. x \<noteq> c) s"

fun split_on :: "char \<Rightarrow> string \<Rightarrow> string list" where
  \<comment> \<open>\<^verbatim>\<open>s.split(c)\<close> with a one-character separator: never empty, and an empty piece
      between two separators that touch\<close>
  "split_on sep [] = [[]]"
| "split_on sep (c # cs) =
     (if c = sep then [] # split_on sep cs
      else (case split_on sep cs of
              [] \<Rightarrow> [[c]]
            | w # ws \<Rightarrow> (c # w) # ws))"

definition first_word :: "string \<Rightarrow> string" where
  \<comment> \<open>\<^verbatim>\<open>s.split(' ')[0]\<close>: the text before the first space\<close>
  "first_word s = hd (split_on (CHR '' '') s)"

fun split_ws :: "string \<Rightarrow> string list" where
  \<comment> \<open>\<^verbatim>\<open>s.split()\<close>: the maximal runs without whitespace\<close>
  "split_ws [] = []"
| "split_ws (c # cs) =
     (if is_space c then split_ws cs
      else (case cs of
              [] \<Rightarrow> [[c]]
            | d # ds \<Rightarrow>
                if is_space d then [c] # split_ws cs
                else (case split_ws cs of
                        [] \<Rightarrow> [[c]]
                      | w # ws \<Rightarrow> (c # w) # ws)))"

definition is_upper :: "char \<Rightarrow> bool" where
  "is_upper c = (let n = (of_char c :: nat) in 65 \<le> n \<and> n \<le> 90)"

definition is_lower :: "char \<Rightarrow> bool" where
  "is_lower c = (let n = (of_char c :: nat) in 97 \<le> n \<and> n \<le> 122)"

fun title_from :: "bool \<Rightarrow> string \<Rightarrow> string" where
  \<comment> \<open>The loop of \<^verbatim>\<open>s.title()\<close>; the flag says that the previous character was a letter.\<close>
  "title_from prev [] = []"
| "title_from prev (c # cs) =
     (if is_lower c then (if prev then c else upper_char c) # title_from True cs
      else if is_upper c then (if prev then lower_char c else c) # title_from True cs
      else c # title_from False cs)"

definition title :: "string \<Rightarrow> string" where
  \<comment> \<open>\<^verbatim>\<open>s.title()\<close>\<close>
  "title s = title_from False s"

definition starts_with :: "string \<Rightarrow> string \<Rightarrow> bool" where
  \<comment> \<open>\<^verbatim>\<open>s.startswith(p)\<close>\<close>
  "starts_with s p = prefix p s"

fun replace_str :: "string \<Rightarrow> string \<Rightarrow> string \<Rightarrow> string" where
  \<comment> \<open>\<^verbatim>\<open>s.replace(old, new)\<close> for a non-empty \<open>old\<close>: left to right, without overlap\<close>
  "replace_str old new [] = []"
| "replace_str old new (c # cs) =
     (if old \<noteq> [] \<and> prefix old (c # cs)
      then new @ replace_str old new (drop (length old) (c # cs))
      else c # replace_str old new cs)"

text \<open>
  A Python float is a double. The claims about amounts depend on its sign and on
  whether it is zero, never on its digits, so a float is the rational it stands for
  (both zeros are \<open>Finite 0\<close>), an infinity, or not-a-number.
\<close>

datatype pyfloat = Finite rat | PosInf | NegInf | NaN

fun float_abs :: "pyfloat \<Rightarrow> pyfloat" where
  \<comment> \<open>\<^verbatim>\<open>abs(x)\<close>\<close>
  "float_abs (Finite q) = Finite \<bar>q\<bar>"
| "float_abs PosInf = PosInf"
| "float_abs NegInf = PosInf"
| "float_abs NaN = NaN"

fun float_neg :: "pyfloat \<Rightarrow> pyfloat" where
  \<comment> \<open>\<^verbatim>\<open>-x\<close>\<close>
  "float_neg (Finite q) = Finite (- q)"
| "float_neg PosInf = NegInf"
| "float_neg NegInf = PosInf"
| "float_neg NaN = NaN"

fun float_eq_zero :: "pyfloat \<Rightarrow> bool" where
  \<comment> \<open>\<^verbatim>\<open>x == 0\<close>: false for not-a-number, as every comparison with it but \<^verbatim>\<open>!=\<close>\<close>
  "float_eq_zero (Finite q) = (q = 0)"
| "float_eq_zero _ = False"



text \<open>
  The builtin \<^verbatim>\<open>float(s)\<close> is not code of this repository: the transaction builder takes
  it as a parameter \<open>pf\<close>, None standing for \<^verbatim>\<open>ValueError\<close>. \<open>float_literal\<close> is the
  builtin on the literals whose double is exact and plain to read: surrounding
  whitespace, an optional sign, then \<^verbatim>\<open>nan\<close>, \<^verbatim>\<open>inf\<close> or \<^verbatim>\<open>infinity\<close> in any case, or at
  most fifteen decimal digits. The builtin accepts more (a decimal point, an exponent,
  underscores), so \<open>float_literal\<close> is used on concrete rows of that shape only.
\<close>

definition float_unsigned :: "string \<Rightarrow> pyfloat option" where
  "float_unsigned s =
     (if lower s = ''nan'' then Some NaN
      else if lower s = ''inf'' \<or> lower s = ''infinity'' then Some PosInf
      else if s \<noteq> [] \<and> length s \<le> 15 \<and> list_all is_digit s
        then Some (Finite (of_int (int_of_digits s)))
      else None)"

definition float_literal :: "string \<Rightarrow> pyfloat option" where
  "float_literal s =
     (case strip s of
        [] \<Rightarrow> None
      | c # cs \<Rightarrow>
          if c = CHR ''-'' then map_option float_neg (float_unsigned cs)
          else if c = CHR ''+'' then float_unsigned cs
          else float_unsigned (c # cs))"

section \<open>Worksheets\<close>

text \<open>
  The workbook comes from openpyxl. A cell's value is None for a blank cell, a string, an
  integer, a float, a boolean or a \<^verbatim>\<open>datetime\<close>. The code reads a value in three ways: its
  truth value, its \<^verbatim>\<open>str()\<close>, and (for a date) \<^verbatim>\<open>strftime\<close>. A float cell therefore carries
  the two things the code can see of it: its \<^verbatim>\<open>str()\<close> text and whether it is non-zero.
\<close>

datatype cell =
    CNone
  | CStr string
  | CInt int
  | CFloat string bool
  | CBool bool
  | CDateTime int int int int int int
    \<comment> \<open>year, month, day, hour, minute, second (microsecond 0)\<close>

fun truthy :: "cell \<Rightarrow> bool" where
  \<comment> \<open>The truth value of a cell value, as in \<^verbatim>\<open>if not date_cell\<close> and \<^verbatim>\<open>value or ''\<close>.\<close>
  "truthy CNone = False"
| "truthy (CStr s) = (s \<noteq> [])"
| "truthy (CInt i) = (i \<noteq> 0)"
| "truthy (CFloat text nonzero) = nonzero"
| "truthy (CBool b) = b"
| "truthy (CDateTime y mo d h mi s) = True"

definition iso_date :: "int \<Rightarrow> int \<Rightarrow> int \<Rightarrow> string" where
  \<comment> \<open>\<^verbatim>\<open>'%04d-%02d-%02d'\<close>\<close>
  "iso_date y mo d = zfill 4 (str_int y) @ ''-'' @ zfill 2 (str_int mo) @ ''-'' @ zfill 2 (str_int d)"

fun py_str :: "cell \<Rightarrow> string" where
  \<comment> \<open>\<^verbatim>\<open>str(value)\<close>\<close>
  "py_str CNone = ''None''"
| "py_str (CStr s) = s"
| "py_str (CInt i) = str_int i"
| "py_str (CFloat text nonzero) = text"
| "py_str (CBool b) = (if b then ''True'' else ''False'')"
| "py_str (CDateTime y mo d h mi s) =
     iso_date y mo d @ '' '' @ zfill 2 (str_int h) @ '':'' @ zfill 2 (str_int mi) @ '':''
       @ zfill 2 (str_int s)"

definition str_or :: "string \<Rightarrow> cell \<Rightarrow> string" where
  \<comment> \<open>\<^verbatim>\<open>str(value or default)\<close> with a string default\<close>
  "str_or dflt v = (if truthy v then py_str v else dflt)"

record worksheet =
  max_row :: nat
  max_column :: nat
  cell_at :: "nat \<Rightarrow> nat \<Rightarrow> cell"
    \<comment> \<open>\<^verbatim>\<open>worksheet.cell(row, col).value\<close>, rows and columns counted from 1\<close>

definition sheet_of_rows :: "cell list list \<Rightarrow> worksheet" where
  \<comment> \<open>The worksheet holding the given rows, from row 1 and column 1; blank elsewhere.\<close>
  "sheet_of_rows rows =
     \<lparr>max_row = max 1 (length rows),
      max_column = max 1 (foldr (\<lambda>r m. max (length r) m) rows 0),
      cell_at = (\<lambda>r c.
        if 1 \<le> r \<and> r \<le> length rows \<and> 1 \<le> c \<and> c \<le> length (rows ! (r - 1))
        then rows ! (r - 1) ! (c - 1) else CNone)\<rparr>"

section \<open>Bank detection\<close>

definition bank_names :: "(string \<times> string) list" where
  \<comment> \<open>The dictionary literal inside \<^verbatim>\<open>detect_bank\<close> of the Excel processor.\<close>
  "bank_names =
    [(''ADCB'', ''Abu Dhabi Commercial Bank''), (''FAB'', ''First Abu Dhabi Bank''),
     (''ENBD'', ''Emirates NBD''), (''MASHREQ'', ''Mashreq Bank''),
     (''CBD'', ''Commercial Bank of Dubai''), (''HSBC'', ''HSBC Bank Middle East''),
     (''RAKBANK'', ''RAKBank''), (''ADIB'', ''Abu Dhabi Islamic Bank''),
     (''BOA'', ''Bank of America''), (''CHASE'', ''Chase Bank''),
     (''WELLS'', ''Wells Fargo''), (''CITI'', ''Citibank'')]"

fun scan_banks :: "(string \<times> string list) list \<Rightarrow> string \<Rightarrow> string" where
  \<comment> \<open>The two loops of \<^verbatim>\<open>detect_bank\<close>: the first bank one of whose patterns occurs.\<close>
  "scan_banks [] text_lower = ''Unknown Bank''"
| "scan_banks ((bank_code, patterns) # rest) text_lower =
     (if any_in patterns text_lower then
        (case map_of bank_names bank_code of
           Some name \<Rightarrow> name
         | None \<Rightarrow> bank_code @ '' Bank'')
      else scan_banks rest text_lower)"

definition detect_bank :: "string \<Rightarrow> string" where
  \<comment> \<open>\<^verbatim>\<open>UAEBankExcelProcessor.detect_bank\<close>\<close>
  "detect_bank text = scan_banks excel_bank_patterns (lower text)"

section \<open>Date normalizer\<close>

definition digits_between :: "nat \<Rightarrow> nat \<Rightarrow> string \<Rightarrow> bool" where
  \<comment> \<open>The string is \<^verbatim>\<open>\d{lo,hi}\<close>.\<close>
  "digits_between lo hi s = (lo \<le> length s \<and> length s \<le> hi \<and> list_all is_digit s)"

definition match_slash_date :: "nat \<Rightarrow> string \<Rightarrow> (string \<times> string \<times> string) option" where
  \<comment> \<open>\<^verbatim>\<open>re.match(r'^(\d{1,2})/(\d{1,2})/(\d{n})$', s)\<close> and its three groups. The string
      matched is stripped, so \<^verbatim>\<open>$\<close> is its end.\<close>
  "match_slash_date n s =
     (case split_on (CHR ''/'') s of
        [g1, g2, g3] \<Rightarrow>
          if digits_between 1 2 g1 \<and> digits_between 1 2 g2 \<and> digits_between n n g3
          then Some (g1, g2, g3) else None
      | _ \<Rightarrow> None)"

definition match_iso_date :: "string \<Rightarrow> (string \<times> string \<times> string) option" where
  \<comment> \<open>\<^verbatim>\<open>re.match(r'^(\d{4})-(\d{1,2})-(\d{1,2})$', s)\<close> and its three groups\<close>
  "match_iso_date s =
     (case split_on (CHR ''-'') s of
        [g1, g2, g3] \<Rightarrow>
          if digits_between 4 4 g1 \<and> digits_between 1 2 g2 \<and> digits_between 1 2 g3
          then Some (g1, g2, g3) else None
      | _ \<Rightarrow> None)"

definition date_patterns ::
  "((string \<Rightarrow> (string \<times> string \<times> string) option) \<times> (string \<times> string \<times> string \<Rightarrow> string)) list"
where
  \<comment> \<open>The list \<^verbatim>\<open>patterns\<close>, each regular expression with what the loop returns on a
      match. For the second pattern the loop does not call the lambda of the list: it
      builds the date itself, month first, with the pivot at 50.\<close>
  "date_patterns =
    [(match_slash_date 4, \<lambda>(g1, g2, g3). g3 @ ''-'' @ zfill 2 g2 @ ''-'' @ zfill 2 g1),
     (match_slash_date 2, \<lambda>(month, day, year).
        (let full_year = (if int_of_digits year < 50 then ''20'' @ year else ''19'' @ year)
         in full_year @ ''-'' @ zfill 2 month @ ''-'' @ zfill 2 day)),
     (match_slash_date 4, \<lambda>(g1, g2, g3). g3 @ ''-'' @ zfill 2 g1 @ ''-'' @ zfill 2 g2),
     (match_iso_date, \<lambda>(g1, g2, g3). g1 @ ''-'' @ zfill 2 g2 @ ''-'' @ zfill 2 g3)]"

fun try_patterns ::
  "((string \<Rightarrow> (string \<times> string \<times> string) option) \<times> (string \<times> string \<times> string \<Rightarrow> string)) list
     \<Rightarrow> string \<Rightarrow> string option"
where
  \<comment> \<open>\<^verbatim>\<open>for pattern, formatter in patterns\<close>: the first pattern that matches returns.\<close>
  "try_patterns [] date_str = None"
| "try_patterns ((pattern, formatter) # rest) date_str =
     (case pattern date_str of
        Some groups \<Rightarrow> Some (formatter groups)
      | None \<Rightarrow> try_patterns rest date_str)"

definition detect_date_format :: "string \<Rightarrow> cell \<Rightarrow> string" where
  \<comment> \<open>\<^verbatim>\<open>UAEBankExcelProcessor.detect_date_format\<close>. The first argument is what
      \<^verbatim>\<open>datetime.now().strftime('%Y-%m-%d')\<close> returns, the clock being outside the program.\<close>
  "detect_date_format today date_string =
     (case date_string of
        CDateTime y mo d h mi s \<Rightarrow> iso_date y mo d
      | _ \<Rightarrow>
          (case try_patterns date_patterns (strip (py_str date_string)) of
             Some formatted \<Rightarrow> formatted
           | None \<Rightarrow> today))"






section \<open>Format detector\<close>

record column_map =
  header_row :: "nat option"
  date_col :: "nat option"
  description_col :: "nat option"
  type_col :: "nat option"
  reference_col :: "nat option"
  debit_col :: "nat option"
  credit_col :: "nat option"
  amount_col :: "nat option"

text \<open>The dictionary \<^verbatim>\<open>row_data\<close>: a key that was never assigned is None.\<close>

definition empty_map :: column_map where
  "empty_map =
     \<lparr>header_row = None, date_col = None, description_col = None, type_col = None,
      reference_col = None, debit_col = None, credit_col = None, amount_col = None\<rparr>"

definition default_map :: column_map where
  \<comment> \<open>The dictionary returned when no header row is found.\<close>
  "default_map =
     \<lparr>header_row = Some 1, date_col = Some 1, description_col = Some 2, type_col = None,
      reference_col = None, debit_col = Some 4, credit_col = Some 5, amount_col = None\<rparr>"

definition header_keywords :: "string list" where
  "header_keywords =
     [''date'', ''amount'', ''description'', ''particular'', ''narration'', ''debit'',
      ''credit'', ''balance'', ''type'', ''reference'']"

definition assign_role :: "string \<Rightarrow> nat \<Rightarrow> column_map \<Rightarrow> column_map" where
  \<comment> \<open>The chain \<^verbatim>\<open>if 'date' in cell_value ... elif ...\<close> under "Detect column types".\<close>
  "assign_role cell_value col row_data =
     (if py_in ''date'' cell_value then row_data\<lparr>date_col := Some col\<rparr>
      else if py_in ''description'' cell_value \<or> py_in ''particular'' cell_value
              \<or> py_in ''narration'' cell_value
        then row_data\<lparr>description_col := Some col\<rparr>
      else if py_in ''type'' cell_value then row_data\<lparr>type_col := Some col\<rparr>
      else if py_in ''reference'' cell_value \<or> py_in ''ref'' cell_value
        then row_data\<lparr>reference_col := Some col\<rparr>
      else if py_in ''debit'' cell_value then row_data\<lparr>debit_col := Some col\<rparr>
      else if py_in ''credit'' cell_value then row_data\<lparr>credit_col := Some col\<rparr>
      else if py_in ''amount'' cell_value then row_data\<lparr>amount_col := Some col\<rparr>
      else row_data)"

definition header_cell :: "worksheet \<Rightarrow> nat \<Rightarrow> nat \<Rightarrow> string" where
  \<comment> \<open>\<^verbatim>\<open>str(worksheet.cell(row, col).value or '').lower().strip()\<close>\<close>
  "header_cell ws row col = strip (lower (str_or [] (cell_at ws row col)))"

definition is_header_cell :: "string \<Rightarrow> bool" where
  \<comment> \<open>\<^verbatim>\<open>cell_value and any(keyword in cell_value for keyword in header_keywords)\<close>\<close>
  "is_header_cell cell_value = (cell_value \<noteq> [] \<and> any_in header_keywords cell_value)"

definition scan_header_cell ::
  "worksheet \<Rightarrow> nat \<Rightarrow> nat \<Rightarrow> column_map \<times> nat \<Rightarrow> column_map \<times> nat" where
  \<comment> \<open>One turn of the loop over the columns, on \<^verbatim>\<open>(row_data, header_count)\<close>.\<close>
  "scan_header_cell ws row col st =
     (let cell_value = header_cell ws row col in
      if is_header_cell cell_value
      then (assign_role cell_value col (fst st), snd st + 1)
      else st)"

definition header_columns :: "worksheet \<Rightarrow> nat list" where
  \<comment> \<open>\<^verbatim>\<open>range(1, min(worksheet.max_column + 1, 10))\<close>\<close>
  "header_columns ws = [1 ..< min (max_column ws + 1) 10]"

definition scan_header_row :: "worksheet \<Rightarrow> nat \<Rightarrow> column_map \<times> nat" where
  \<comment> \<open>The body of the loop over the rows, up to the test of \<^verbatim>\<open>header_count\<close>.\<close>
  "scan_header_row ws row = foldl (\<lambda>st col. scan_header_cell ws row col st) (empty_map, 0) (header_columns ws)"

fun scan_header_rows :: "worksheet \<Rightarrow> nat list \<Rightarrow> column_map" where
  \<comment> \<open>The loop over the rows: the first row with three header cells returns.\<close>
  "scan_header_rows ws [] = default_map"
| "scan_header_rows ws (row # rows) =
     (let (row_data, header_count) = scan_header_row ws row in
      if 3 \<le> header_count then row_data\<lparr>header_row := Some row\<rparr>
      else scan_header_rows ws rows)"

definition header_rows :: "worksheet \<Rightarrow> nat list" where
  \<comment> \<open>\<^verbatim>\<open>range(1, min(20, worksheet.max_row + 1))\<close>\<close>
  "header_rows ws = [1 ..< min 20 (max_row ws + 1)]"

definition find_data_headers :: "worksheet \<Rightarrow> column_map" where
  \<comment> \<open>\<^verbatim>\<open>UAEBankExcelProcessor.find_data_headers\<close>\<close>
  "find_data_headers ws = scan_header_rows ws (header_rows ws)"







section \<open>Transactions\<close>

text \<open>
  A transaction is a dictionary with five keys. Its category is a Python value: the
  builder stores a string, and the AI categorization stores whatever element the parsed
  response holds at the transaction's index, so the field has the type of a parsed JSON
  value.
\<close>

datatype json =
    JNull
  | JBool bool
  | JNum string
  | JStr string
  | JArr "json list"
  | JObj "(string \<times> json) list"

record transaction =
  Date :: string
  Amount :: pyfloat
  Description :: string
  Category :: json
  Subcategory :: string

section \<open>Transaction builder\<close>

definition col_or :: "nat \<Rightarrow> nat option \<Rightarrow> nat" where
  \<comment> \<open>\<^verbatim>\<open>column_map.get(key, default)\<close>\<close>
  "col_or dflt entry = (case entry of Some col \<Rightarrow> col | None \<Rightarrow> dflt)"

definition read_cell :: "worksheet \<Rightarrow> nat \<Rightarrow> nat \<Rightarrow> cell" where
  \<comment> \<open>\<^verbatim>\<open>worksheet.cell(row, col).value if col else None\<close>\<close>
  "read_cell ws row col = (if col \<noteq> 0 then cell_at ws row col else CNone)"

definition date_skip_keywords :: "string list" where
  \<comment> \<open>The list tested against the date cell.\<close>
  "date_skip_keywords = [''TOTAL'', ''SUMMARY'', ''BALANCE'', ''OPENING'', ''CLOSING'']"

definition description_skip_keywords :: "string list" where
  \<comment> \<open>The list tested against the description cell.\<close>
  "description_skip_keywords = [''TOTAL'', ''SUMMARY'', ''MONTHLY'']"

definition has_amount :: "cell \<Rightarrow> bool" where
  \<comment> \<open>\<^verbatim>\<open>cell and str(cell).strip() and str(cell).strip() not in ['', '-', 'None']\<close>\<close>
  "has_amount c =
     (truthy c \<and> strip (py_str c) \<noteq> [] \<and> strip (py_str c) \<notin> set ['''', ''-'', ''None''])"

definition row_amount ::
  "(string \<Rightarrow> pyfloat option) \<Rightarrow> worksheet \<Rightarrow> nat \<Rightarrow> nat option \<Rightarrow> cell \<Rightarrow> cell \<Rightarrow> pyfloat option"
where
  \<comment> \<open>The inner \<^verbatim>\<open>try\<close> of the row: the amount, or None when \<^verbatim>\<open>float\<close> raises
      \<^verbatim>\<open>ValueError\<close> and the row is skipped. The amount starts as 0.\<close>
  "row_amount pf ws row amount_column debit_cell credit_cell =
     (if amount_column \<noteq> None \<and> amount_column \<noteq> Some 0 then
        pf (remove_char (CHR '','') (str_or ''0'' (cell_at ws row (the amount_column))))
      else if has_amount debit_cell then
        map_option (\<lambda>x. float_neg (float_abs x)) (pf (remove_char (CHR '','') (py_str debit_cell)))
      else if has_amount credit_cell then
        map_option float_abs (pf (remove_char (CHR '','') (py_str credit_cell)))
      else Some (Finite 0))"

definition subcategory_of :: "string \<Rightarrow> string" where
  \<comment> \<open>\<^verbatim>\<open>category.split(' ')[0] if category != 'Other Expenses' else 'Miscellaneous'\<close>\<close>
  "subcategory_of category =
     (if category \<noteq> ''Other Expenses'' then first_word category else ''Miscellaneous'')"

definition build_row ::
  "(string \<Rightarrow> pyfloat option) \<Rightarrow> string \<Rightarrow> worksheet \<Rightarrow> column_map \<Rightarrow> nat \<Rightarrow> nat
     \<Rightarrow> transaction option"
where
  \<comment> \<open>The body of the loop over the rows of a sheet: the transaction appended, or None
      when the row is skipped. \<open>n\<close> is \<^verbatim>\<open>len(all_transactions)\<close> when the row is read.
      The locals named after the keys of the column map end in \<open>column\<close> here.\<close>
  "build_row pf today ws column_map n row =
     (let date_column = col_or 1 (date_col column_map);
          desc_column = col_or 2 (description_col column_map);
          debit_column = col_or 4 (debit_col column_map);
          credit_column = col_or 5 (credit_col column_map);
          amount_column = amount_col column_map;
          date_cell = read_cell ws row date_column;
          description_cell = read_cell ws row desc_column;
          debit_cell = read_cell ws row debit_column;
          credit_cell = read_cell ws row credit_column
      in
      if \<not> truthy date_cell then None
      else if any_in date_skip_keywords (upper (py_str date_cell)) then None
      else if truthy description_cell
              \<and> any_in description_skip_keywords (upper (py_str description_cell)) then None
      else
        (let date_str = detect_date_format today date_cell in
         case row_amount pf ws row amount_column debit_cell credit_cell of
           None \<Rightarrow> None
         | Some amount \<Rightarrow>
             if float_eq_zero amount then None
             else
               (let description =
                      (if truthy description_cell then strip (py_str description_cell)
                       else ''Transaction '' @ str_nat (n + 1));
                    category = excel_categorize_transaction description
                in Some \<lparr>Date = date_str, Amount = amount, Description = description,
                         Category = JStr category, Subcategory = subcategory_of category\<rparr>)))"

definition build_rows ::
  "(string \<Rightarrow> pyfloat option) \<Rightarrow> string \<Rightarrow> worksheet \<Rightarrow> column_map \<Rightarrow> nat list
     \<Rightarrow> transaction list \<Rightarrow> transaction list"
where
  \<comment> \<open>The loop over the rows, on the list \<^verbatim>\<open>all_transactions\<close>.\<close>
  "build_rows pf today ws column_map rows all_transactions =
     foldl (\<lambda>acc row. case build_row pf today ws column_map (length acc) row of
                         None \<Rightarrow> acc
                       | Some tx \<Rightarrow> acc @ [tx])
           all_transactions rows"

definition process_sheet ::
  "(string \<Rightarrow> pyfloat option) \<Rightarrow> string \<Rightarrow> worksheet \<Rightarrow> transaction list \<Rightarrow> transaction list"
where
  \<comment> \<open>The body of \<^verbatim>\<open>for sheet_name in transaction_sheets\<close>.\<close>
  "process_sheet pf today ws all_transactions =
     (let column_map = find_data_headers ws;
          first_row = col_or 1 (header_row column_map) + 1
      in build_rows pf today ws column_map [first_row ..< max_row ws + 1] all_transactions)"

section \<open>AI categorization batcher\<close>

text \<open>
  The classifier and \<^verbatim>\<open>json.loads\<close> are outside the program. The classifier is a function
  from the lines sent in the prompt (all else in the prompt is fixed text) to the text of
  the answer, None when the call raises; \<^verbatim>\<open>json.loads\<close> is a function from a text to
  the parsed value, None when it raises \<^verbatim>\<open>JSONDecodeError\<close>.
\<close>

record ai_client =
  api_key :: "string option"
  classify :: "string list \<Rightarrow> string option"
  json_loads :: "string \<Rightarrow> json option"

datatype py_error = TypeError | KeyError | AttributeError

fun py_len :: "json \<Rightarrow> py_error + nat" where
  \<comment> \<open>\<^verbatim>\<open>len(v)\<close> of a parsed value\<close>
  "py_len (JArr xs) = Inr (length xs)"
| "py_len (JStr s) = Inr (length s)"
| "py_len (JObj kvs) = Inr (length kvs)"
| "py_len _ = Inl TypeError"

fun py_getitem :: "json \<Rightarrow> nat \<Rightarrow> py_error + json" where
  \<comment> \<open>\<^verbatim>\<open>v[idx]\<close> for an index below \<^verbatim>\<open>len(v)\<close>: an element of a list, a character of a
      string; a dictionary parsed from JSON has string keys only, so an integer key raises.\<close>
  "py_getitem (JArr xs) idx = Inr (xs ! idx)"
| "py_getitem (JStr s) idx = Inr (JStr [s ! idx])"
| "py_getitem (JObj kvs) idx = Inl KeyError"
| "py_getitem _ idx = Inl TypeError"

fun py_split_first :: "json \<Rightarrow> py_error + string" where
  \<comment> \<open>\<^verbatim>\<open>v.split(' ')[0]\<close>: only a string has the method\<close>
  "py_split_first (JStr s) = Inr (first_word s)"
| "py_split_first _ = Inl AttributeError"

definition apply_category :: "json \<Rightarrow> nat \<Rightarrow> transaction \<Rightarrow> transaction \<times> bool" where
  \<comment> \<open>The two assignments under \<^verbatim>\<open>if idx < len(ai_categories)\<close>, on the dictionary \<open>tx\<close>:
      the dictionary after them, and whether an exception was raised on the way. The
      category is assigned before \<^verbatim>\<open>split\<close> is called.\<close>
  "apply_category ai_categories idx tx =
     (case py_len ai_categories of
        Inl e \<Rightarrow> (tx, True)
      | Inr n \<Rightarrow>
          if idx < n then
            (case py_getitem ai_categories idx of
               Inl e \<Rightarrow> (tx, True)
             | Inr v \<Rightarrow>
                 (case py_split_first v of
                    Inl e \<Rightarrow> (tx\<lparr>Category := v\<rparr>, True)
                  | Inr w \<Rightarrow> (tx\<lparr>Category := v, Subcategory := w\<rparr>, False)))
          else (tx, False))"

fun apply_categories ::
  "json \<Rightarrow> nat \<Rightarrow> transaction list \<Rightarrow> transaction list \<times> transaction list option" where
  \<comment> \<open>\<^verbatim>\<open>for idx, tx in enumerate(batch)\<close> from index \<open>idx\<close> on: the transactions appended
      to \<^verbatim>\<open>categorized_transactions\<close>, and, when an exception stopped the loop, the
      dictionaries of the batch as they are at that moment.\<close>
  "apply_categories ai_categories idx [] = ([], None)"
| "apply_categories ai_categories idx (tx # batch) =
     (case apply_category ai_categories idx tx of
        (tx', True) \<Rightarrow> ([], Some (tx' # batch))
      | (tx', False) \<Rightarrow>
          (case apply_categories ai_categories (idx + 1) batch of
             (appended, raised) \<Rightarrow> (tx' # appended, map_option (\<lambda>state. tx' # state) raised)))"

definition excel_clean :: "string \<Rightarrow> string" where
  \<comment> \<open>"Remove markdown if present", Excel processor\<close>
  "excel_clean ai_response =
     (if starts_with ai_response ''```json''
      then strip (replace_str ''```'' [] (replace_str ''```json'' [] ai_response))
      else if starts_with ai_response ''```''
      then strip (replace_str ''```'' [] ai_response)
      else ai_response)"

definition pdf_clean :: "string \<Rightarrow> string" where
  \<comment> \<open>The same step in the PDF processor\<close>
  "pdf_clean ai_response =
     (if py_in ''```json'' ai_response
      then strip (replace_str ''```'' [] (replace_str ''```json'' [] ai_response))
      else ai_response)"

definition describe_batch :: "nat \<Rightarrow> transaction list \<Rightarrow> string list" where
  \<comment> \<open>\<^verbatim>\<open>[f"{idx}. {tx['Description']}" for idx, tx in enumerate(batch, start=i)]\<close>\<close>
  "describe_batch i batch =
     map (\<lambda>(idx, tx). str_nat idx @ ''. '' @ Description tx) (zip [i ..< i + length batch] batch)"

definition categorize_batch ::
  "ai_client \<Rightarrow> (string \<Rightarrow> string) \<Rightarrow> nat \<Rightarrow> transaction list \<Rightarrow> transaction list" where
  \<comment> \<open>The body of the loop over the batches: what the batch starting at index \<open>i\<close> adds
      to \<^verbatim>\<open>categorized_transactions\<close>. The prompt holds \<^verbatim>\<open>descriptions[:30]\<close>. The
      \<^verbatim>\<open>except\<close> branch appends every dictionary of the batch, after what the \<^verbatim>\<open>try\<close>
      branch appended before the exception.\<close>
  "categorize_batch ai clean i batch =
     (let descriptions = describe_batch i batch in
      case classify ai (take 30 descriptions) of
        None \<Rightarrow> batch
      | Some content \<Rightarrow>
          (case json_loads ai (clean (strip content)) of
             None \<Rightarrow> batch
           | Some ai_categories \<Rightarrow>
               (case apply_categories ai_categories 0 batch of
                  (appended, None) \<Rightarrow> appended
                | (appended, Some state) \<Rightarrow> appended @ state)))"

function categorize_from ::
  "ai_client \<Rightarrow> (string \<Rightarrow> string) \<Rightarrow> nat \<Rightarrow> transaction list \<Rightarrow> transaction list" where
  \<comment> \<open>\<^verbatim>\<open>for i in range(0, len(transactions), batch_size)\<close> from index \<open>i\<close> on, the
      second list being \<^verbatim>\<open>transactions[i:]\<close>; \<^verbatim>\<open>batch_size\<close> is 50.\<close>
  "categorize_from ai clean i rest =
     (if rest = [] then []
      else categorize_batch ai clean i (take 50 rest)
             @ categorize_from ai clean (i + 50) (drop 50 rest))"
  by pat_completeness auto
termination
  by (relation "measure (\<lambda>(ai, clean, i, rest). length rest)") auto

declare categorize_from.simps [simp del]

definition key_present :: "ai_client \<Rightarrow> bool" where
  \<comment> \<open>The truth value of \<^verbatim>\<open>openai.api_key\<close>: set and not empty\<close>
  "key_present ai = (case api_key ai of None \<Rightarrow> False | Some k \<Rightarrow> k \<noteq> [])"

definition ai_categorize_transactions :: "ai_client \<Rightarrow> transaction list \<Rightarrow> transaction list" where
  \<comment> \<open>\<^verbatim>\<open>UAEBankExcelProcessor.ai_categorize_transactions\<close>\<close>
  "ai_categorize_transactions ai transactions =
     (if \<not> key_present ai \<or> transactions = [] then transactions
      else categorize_from ai excel_clean 0 transactions)"

definition pdf_ai_categorize_transactions :: "ai_client \<Rightarrow> transaction list \<Rightarrow> transaction list" where
  \<comment> \<open>\<^verbatim>\<open>BankStatementPDFProcessor.ai_categorize_transactions\<close>\<close>
  "pdf_ai_categorize_transactions ai transactions =
     (if \<not> key_present ai \<or> transactions = [] then transactions
      else categorize_from ai pdf_clean 0 transactions)"

definition quoted :: "string \<Rightarrow> string" where
  \<comment> \<open>A string between double quotes, as a JSON text writes it.\<close>
  "quoted s = CHR 0x22 # s @ [CHR 0x22]"

section \<open>Bank information\<close>

record bank_info =
  bank_name :: string
  account_holder :: string
  account_number :: string
  currency :: string

definition is_account_number :: "string \<Rightarrow> bool" where
  \<comment> \<open>\<^verbatim>\<open>re.match(r'^\d{10,16}$', s)\<close>: ten to sixteen digits, and \<^verbatim>\<open>$\<close> also matches
      before a line feed that ends the string.\<close>
  "is_account_number s =
     (digits_between 10 16 s \<or>
      (s \<noteq> [] \<and> last s = CHR 0x0A \<and> digits_between 10 16 (butlast s)))"

definition last4 :: "string \<Rightarrow> string" where
  \<comment> \<open>\<^verbatim>\<open>s[-4:]\<close>\<close>
  "last4 s = drop (length s - 4) s"

definition mask :: "string \<Rightarrow> string" where
  \<comment> \<open>\<^verbatim>\<open>cell_value[:4] + '-' + '*' * 4 + '-' + cell_value[-4:]\<close>\<close>
  "mask s = take 4 s @ ''-'' @ replicate 4 (CHR ''*'') @ ''-'' @ last4 s"

definition scan_info_cell :: "cell \<Rightarrow> bank_info \<Rightarrow> bank_info" where
  \<comment> \<open>The body of the two loops of \<^verbatim>\<open>extract_bank_info\<close>, on the dictionary
      \<^verbatim>\<open>bank_info\<close>: three tests, one after the other, on the uppercased text of a cell.\<close>
  "scan_info_cell c info =
     (let text = upper (str_or [] c);
          detected = detect_bank text;
          info1 = (if detected \<notin> set [''UAE Bank'', ''Unknown Bank'']
                   then info\<lparr>bank_name := detected\<rparr> else info);
          info2 = (if 2 \<le> length (split_ws text) \<and> length (split_ws text) \<le> 4
                      \<and> \<not> list_ex is_digit text
                      \<and> any_in [''mr'', ''ms'', ''mrs'', ''dr''] (lower text)
                   then info1\<lparr>account_holder := title text\<rparr> else info1)
      in if is_account_number (remove_char (CHR ''-'') (remove_char (CHR '' '') text))
         then info2\<lparr>account_number := mask text\<rparr> else info2)"

definition extract_bank_info :: "worksheet \<Rightarrow> bank_info" where
  \<comment> \<open>\<^verbatim>\<open>UAEBankExcelProcessor.extract_bank_info\<close>: rows
      \<^verbatim>\<open>range(1, min(21, max_row + 1))\<close>, columns \<^verbatim>\<open>range(1, min(10, max_column + 1))\<close>.\<close>
  "extract_bank_info ws =
     foldl (\<lambda>info row.
              foldl (\<lambda>info col. scan_info_cell (cell_at ws row col) info) info
                    [1 ..< min 10 (max_column ws + 1)])
           \<lparr>bank_name = ''UAE Bank'', account_holder = ''Account Holder'',
            account_number = ''XXXX-XXXX-XXXX'', currency = ''AED''\<rparr>
           [1 ..< min 21 (max_row ws + 1)]"

definition account_info_row :: "worksheet \<Rightarrow> nat \<Rightarrow> bank_info \<Rightarrow> bank_info" where
  \<comment> \<open>The body of the loop of \<^verbatim>\<open>process_excel_file\<close> over the rows of the sheet
      \<^verbatim>\<open>Account Info\<close>: the label in column 1, the value in column 2.\<close>
  "account_info_row info_sheet row info =
     (let label = lower (str_or [] (cell_at info_sheet row 1));
          val = str_or [] (cell_at info_sheet row 2)
      in
      if py_in ''account holder'' label \<and> val \<noteq> [] then info\<lparr>account_holder := val\<rparr>
      else if py_in ''account number'' label \<and> val \<noteq> [] then info\<lparr>account_number := val\<rparr>
      else if py_in ''bank name'' label \<and> val \<noteq> [] then
        (let detected_bank = detect_bank val in
         if detected_bank \<noteq> ''Unknown Bank'' then
           info\<lparr>bank_name := detected_bank,
                currency :=
                  (if py_in ''America'' detected_bank \<or> py_in ''Chase'' detected_bank
                      \<or> py_in ''Wells'' detected_bank \<or> py_in ''Citi'' detected_bank
                   then ''USD'' else ''AED'')\<rparr>
         else info)
      else info)"

type_synonym workbook = "(string \<times> worksheet) list"

definition read_account_info :: "workbook \<Rightarrow> bank_info" where
  \<comment> \<open>"Extract bank info from Account Info sheet" in \<^verbatim>\<open>process_excel_file\<close>. The names
      of the sheets of a workbook are distinct.\<close>
  "read_account_info wb =
     (let info = \<lparr>bank_name = ''Unknown Bank'', account_holder = ''Account Holder'',
                  account_number = ''XXXX-XXXX-XXXX'', currency = ''USD''\<rparr>
      in case map_of wb ''Account Info'' of
           None \<Rightarrow> info
         | Some info_sheet \<Rightarrow>
             foldl (\<lambda>info row. account_info_row info_sheet row info) info
                   [1 ..< max_row info_sheet + 1])"

record statement =
  transactions :: "transaction list"
  statement_bank_info :: bank_info
  total_rows :: nat
  processing_mode :: string

definition process_excel_file ::
  "ai_client \<Rightarrow> (string \<Rightarrow> pyfloat option) \<Rightarrow> string \<Rightarrow> workbook \<Rightarrow> statement" where
  \<comment> \<open>\<^verbatim>\<open>UAEBankExcelProcessor.process_excel_file\<close>, from the loaded workbook on. The two
      error returns come before: openpyxl missing, or \<^verbatim>\<open>load_workbook\<close> raising.\<close>
  "process_excel_file ai pf today wb =
     (let info = read_account_info wb;
          transaction_sheets = filter (\<lambda>(sheet_name, ws). sheet_name \<noteq> ''Account Info'') wb;
          all_transactions =
            foldl (\<lambda>acc (sheet_name, ws). process_sheet pf today ws acc) [] transaction_sheets;
          categorized =
            (if 0 < length all_transactions
             then ai_categorize_transactions ai all_transactions else all_transactions)
      in \<lparr>transactions = categorized, statement_bank_info = info,
          total_rows = length categorized,
          processing_mode = ''Dynamic Excel Processing with AI Categorization''\<rparr>)"

section \<open>Properties\<close>

subsection \<open>Shared facts\<close>

lemma scan_header_rows_cases:
  "scan_header_rows ws rows = default_map \<or>
   (\<exists>row \<in> set rows. 3 \<le> snd (scan_header_row ws row) \<and>
      scan_header_rows ws rows = (fst (scan_header_row ws row))\<lparr>header_row := Some row\<rparr>)"
  by (induction rows) (auto simp: Let_def split_beta)

subsection \<open>Account number\<close>

lemma upper_digits: "list_all is_digit s \<Longrightarrow> upper s = s"
  by (induction s) (auto simp: upper_def upper_char_def is_digit_def Let_def)

lemma remove_char_digits:
  "list_all is_digit s \<Longrightarrow> \<not> is_digit c \<Longrightarrow> remove_char c s = s"
  by (induction s) (auto simp: remove_char_def)

lemma mask_of_digits:
  assumes "digits_between 10 16 s"
  shows "account_number (scan_info_cell (CStr s) info) = take 4 s @ ''-****-'' @ last4 s"
proof -
  from assms have d: "list_all is_digit s" and n: "s \<noteq> []"
    by (auto simp: digits_between_def)
  have sp: "\<not> is_digit (CHR '' '')" "\<not> is_digit (CHR ''-'')" by (simp_all add: is_digit_def)
  have u: "str_or [] (CStr s) = s" using n by (simp add: str_or_def)
  have stars: "replicate 4 (CHR ''*'') = ''****''" by code_simp
  have "is_account_number (remove_char (CHR ''-'') (remove_char (CHR '' '') (upper s)))"
    using assms d sp by (simp add: upper_digits remove_char_digits is_account_number_def)
  then show ?thesis
    by (simp add: scan_info_cell_def Let_def u upper_digits [OF d] mask_def stars)
qed

text \<open>
  Claim C1: whenever the account number of the statement comes from a cell of 10 to 16
  digits, the field holds the first four digits, \<^verbatim>\<open>-****-\<close> and the last four, never the
  digits themselves. \<^verbatim>\<open>extract_bank_info\<close> masks such a cell (lemma \<open>mask_of_digits\<close>),
  but \<^verbatim>\<open>process_excel_file\<close> does not call it: it copies the value beside the label
  \<^verbatim>\<open>Account Number\<close> of the sheet \<^verbatim>\<open>Account Info\<close> as it is.
\<close>

theorem account_number_not_masked:
  "account_number (statement_bank_info
     (process_excel_file
        \<lparr>api_key = None, classify = (\<lambda>lines. None), json_loads = (\<lambda>text. None)\<rparr>
        float_literal ''2026-11-04''
        [(''Account Info'',
          sheet_of_rows [[CStr ''Account Number'', CStr ''1234567890123456'']])]))
   = ''1234567890123456'' \<and>
   account_number (extract_bank_info (sheet_of_rows [[CStr ''1234567890123456'']]))
   = ''1234-****-3456''"
  by code_simp

subsection \<open>AI categorization batcher: failures\<close>

lemma categorize_from_unchanged:
  "(\<And>i batch. categorize_batch ai clean i batch = batch) \<Longrightarrow>
   categorize_from ai clean i rest = rest"
proof (induction ai clean i rest rule: categorize_from.induct)
  case (1 ai clean i rest)
  show ?case
  proof (cases "rest = []")
    case True
    then show ?thesis by (simp add: categorize_from.simps)
  next
    case False
    with "1.IH" [OF False "1.prems"] "1.prems" show ?thesis
      by (subst categorize_from.simps) simp
  qed
qed

lemma classifier_raises_unchanged:
  assumes "\<And>lines. classify ai lines = None"
  shows "ai_categorize_transactions ai txs = txs"
  by (simp add: ai_categorize_transactions_def categorize_from_unchanged categorize_batch_def assms)

lemma malformed_answer_unchanged:
  assumes "\<And>text. json_loads ai text = None"
  shows "ai_categorize_transactions ai txs = txs"
  by (simp add: ai_categorize_transactions_def categorize_from_unchanged categorize_batch_def
      assms split: option.splits)

text \<open>
  Claim C2: the batcher returns a list of the same length in the same order and, when a
  batch fails, leaves that batch with its rule-based categories. When the call raises or
  the answer is not JSON this holds (lemmas \<open>classifier_raises_unchanged\<close> and
  \<open>malformed_answer_unchanged\<close>). It fails when the answer parses and the loop over the
  batch raises part way: for the answer \<^verbatim>\<open>["Shopping & Retail", null]\<close> the first
  transaction is appended with its new category, the second gets the category \<^verbatim>\<open>None\<close>
  and then \<^verbatim>\<open>None.split\<close> raises, and the \<^verbatim>\<open>except\<close> branch appends the whole batch
  again: three transactions for two, the first one twice, none with its rule-based
  category.
\<close>

theorem partial_answer_duplicates:
  "ai_categorize_transactions
     \<lparr>api_key = Some ''key'',
      classify = (\<lambda>lines. Some (''['' @ quoted ''Shopping & Retail'' @ '', null]'')),
      json_loads = (\<lambda>text. if text = ''['' @ quoted ''Shopping & Retail'' @ '', null]''
                             then Some (JArr [JStr ''Shopping & Retail'', JNull]) else None)\<rparr>
     [\<lparr>Date = ''2024-02-01'', Amount = Finite (- 50), Description = ''Carrefour Mall'',
       Category = JStr ''Food & Dining'', Subcategory = ''Food''\<rparr>,
      \<lparr>Date = ''2024-02-02'', Amount = Finite 5000, Description = ''Salary'',
       Category = JStr ''Other Expenses'', Subcategory = ''Miscellaneous''\<rparr>]
   = [\<lparr>Date = ''2024-02-01'', Amount = Finite (- 50), Description = ''Carrefour Mall'',
       Category = JStr ''Shopping & Retail'', Subcategory = ''Shopping''\<rparr>,
      \<lparr>Date = ''2024-02-01'', Amount = Finite (- 50), Description = ''Carrefour Mall'',
       Category = JStr ''Shopping & Retail'', Subcategory = ''Shopping''\<rparr>,
      \<lparr>Date = ''2024-02-02'', Amount = Finite 5000, Description = ''Salary'',
       Category = JNull, Subcategory = ''Miscellaneous''\<rparr>]"
  by code_simp

theorem partial_answer_duplicates_witness:
  "key_present
     \<lparr>api_key = Some ''key'',
      classify = (\<lambda>lines. Some (''['' @ quoted ''Shopping & Retail'' @ '', null]'')),
      json_loads = (\<lambda>text. if text = ''['' @ quoted ''Shopping & Retail'' @ '', null]''
                             then Some (JArr [JStr ''Shopping & Retail'', JNull]) else None)\<rparr> \<and>
   length (ai_categorize_transactions
     \<lparr>api_key = Some ''key'',
      classify = (\<lambda>lines. Some (''['' @ quoted ''Shopping & Retail'' @ '', null]'')),
      json_loads = (\<lambda>text. if text = ''['' @ quoted ''Shopping & Retail'' @ '', null]''
                             then Some (JArr [JStr ''Shopping & Retail'', JNull]) else None)\<rparr>
     [\<lparr>Date = ''2024-02-01'', Amount = Finite (- 50), Description = ''Carrefour Mall'',
       Category = JStr ''Food & Dining'', Subcategory = ''Food''\<rparr>,
      \<lparr>Date = ''2024-02-02'', Amount = Finite 5000, Description = ''Salary'',
       Category = JStr ''Other Expenses'', Subcategory = ''Miscellaneous''\<rparr>]) = 3"
  using partial_answer_duplicates by (simp add: key_present_def)

subsection \<open>AI categorization batcher: batches, prompt, positional answers\<close>

lemma batch_count:
  assumes "rest \<noteq> []"
  shows "(length rest + 49) div 50 = Suc ((length (drop 50 rest) + 49) div 50)"
proof (cases "50 \<le> length rest")
  case True
  then have "length rest + 49 = 50 + (length rest - 50 + 49)" by simp
  then have "(length rest + 49) div 50 = (length rest - 50 + 49) div 50 + 1"
    by (simp only: div_add_self1)
  then show ?thesis by simp
next
  case False
  from assms have "0 < length rest" by simp
  with False have "0 < length rest" "length rest < 50" by simp_all
  then have "(length rest + 49) div 50 = 1"
    by (intro div_nat_eqI) (simp_all add: Suc_le_eq)
  with False show ?thesis by simp
qed

lemma batch_shift:
  "map (\<lambda>k. f (i + 50 * k) (take 50 (drop (50 * k) rest))) (map Suc [0 ..< m]) =
   map (\<lambda>k. f (i + 50 + 50 * k) (take 50 (drop (50 * k) (drop 50 rest)))) [0 ..< m]"
proof -
  have "i + 50 * Suc k = i + 50 + 50 * k" for k by simp
  moreover have "drop (50 * Suc k) rest = drop (50 * k) (drop 50 rest)" for k
    by (simp add: add.commute)
  ultimately show ?thesis by (simp only: map_map comp_def)
qed

lemma categorize_from_batches:
  "categorize_from ai clean i rest =
     concat (map (\<lambda>k. categorize_batch ai clean (i + 50 * k) (take 50 (drop (50 * k) rest)))
                 [0 ..< (length rest + 49) div 50])"
proof (induction ai clean i rest rule: categorize_from.induct)
  case (1 ai clean i rest)
  show ?case
  proof (cases "rest = []")
    case True
    then show ?thesis by (simp add: categorize_from.simps)
  next
    case False
    let ?m = "(length (drop 50 rest) + 49) div 50"
    let ?f = "categorize_batch ai clean"
    have idx: "[0 ..< Suc ?m] = 0 # map Suc [0 ..< ?m]"
      by (simp only: upt_conv_Cons [OF zero_less_Suc] map_Suc_upt)
    have step: "categorize_from ai clean i rest =
        ?f i (take 50 rest) @ categorize_from ai clean (i + 50) (drop 50 rest)"
      using False by (subst categorize_from.simps) simp
    have "concat (map (\<lambda>k. ?f (i + 50 * k) (take 50 (drop (50 * k) rest))) [0 ..< Suc ?m]) =
          ?f i (take 50 rest)
            @ concat (map (\<lambda>k. ?f (i + 50 * k) (take 50 (drop (50 * k) rest))) (map Suc [0 ..< ?m]))"
      unfolding idx by simp
    also have "\<dots> = ?f i (take 50 rest)
            @ concat (map (\<lambda>k. ?f (i + 50 + 50 * k) (take 50 (drop (50 * k) (drop 50 rest)))) [0 ..< ?m])"
      by (simp only: batch_shift)
    also have "\<dots> = categorize_from ai clean i rest"
      unfolding step "1.IH" [OF False] ..
    finally show ?thesis
      unfolding batch_count [OF False] by simp
  qed
qed

lemma apply_category_string:
  "apply_category (JArr (map JStr cats)) idx tx =
     (if idx < length cats
      then tx\<lparr>Category := JStr (cats ! idx), Subcategory := first_word (cats ! idx)\<rparr>
      else tx, False)"
  by (simp add: apply_category_def)

lemma apply_categories_strings:
  "apply_categories (JArr (map JStr cats)) idx batch =
     (map (\<lambda>(k, tx). if k < length cats
                       then tx\<lparr>Category := JStr (cats ! k), Subcategory := first_word (cats ! k)\<rparr>
                       else tx)
          (zip [idx ..< idx + length batch] batch), None)"
proof (induction batch arbitrary: idx)
  case Nil
  show ?case by simp
next
  case (Cons tx batch)
  have z: "[idx ..< idx + length (tx # batch)] = idx # [Suc idx ..< Suc idx + length batch]"
    by (simp add: upt_conv_Cons del: upt_Suc)
  show ?case
    unfolding z by (simp add: apply_category_string Cons.IH)
qed

lemma describe_batch_nth:
  "take 30 (describe_batch i batch) =
     map (\<lambda>k. str_nat (i + k) @ ''. '' @ Description (batch ! k)) [0 ..< min 30 (length batch)]"
  by (rule nth_equalityI) (simp_all add: describe_batch_def)

text \<open>
  Claim C3: with a classifier configured, the batcher splits the list into consecutive
  batches of 50: its result is the concatenation, over \<open>k\<close> from 0, of what the batch
  \<^verbatim>\<open>transactions[50*k : 50*k + 50]\<close> yields. The prompt of a batch holds the first 30 of
  its enumerated descriptions and no other. When the answer parses to an array of
  category strings, the batch keeps its length and order, and the transaction at index
  \<open>k\<close> gets the category at index \<open>k\<close> of the array (with the first word of it as
  subcategory) exactly when \<open>k\<close> is below the length of the array, and is unchanged
  otherwise.
\<close>

theorem batches_prompt_positional:
  "(key_present ai \<longrightarrow>
      ai_categorize_transactions ai txs =
        concat (map (\<lambda>k. categorize_batch ai excel_clean (50 * k) (take 50 (drop (50 * k) txs)))
                    [0 ..< (length txs + 49) div 50])) \<and>
   take 30 (describe_batch i batch) =
     map (\<lambda>k. str_nat (i + k) @ ''. '' @ Description (batch ! k)) [0 ..< min 30 (length batch)] \<and>
   (classify ai (take 30 (describe_batch i batch)) = Some content \<and>
    json_loads ai (excel_clean (strip content)) = Some (JArr (map JStr cats)) \<longrightarrow>
      length (categorize_batch ai excel_clean i batch) = length batch \<and>
      (\<forall>k < length batch.
         categorize_batch ai excel_clean i batch ! k =
           (if k < length cats
            then (batch ! k)\<lparr>Category := JStr (cats ! k), Subcategory := first_word (cats ! k)\<rparr>
            else batch ! k)))"
proof (intro conjI impI)
  assume "key_present ai"
  then show "ai_categorize_transactions ai txs =
        concat (map (\<lambda>k. categorize_batch ai excel_clean (50 * k) (take 50 (drop (50 * k) txs)))
                    [0 ..< (length txs + 49) div 50])"
    using categorize_from_batches [of ai excel_clean 0 txs]
    by (cases "txs = []") (simp_all add: ai_categorize_transactions_def)
next
  show "take 30 (describe_batch i batch) =
     map (\<lambda>k. str_nat (i + k) @ ''. '' @ Description (batch ! k)) [0 ..< min 30 (length batch)]"
    by (rule describe_batch_nth)
next
  assume a: "classify ai (take 30 (describe_batch i batch)) = Some content \<and>
    json_loads ai (excel_clean (strip content)) = Some (JArr (map JStr cats))"
  then have r: "categorize_batch ai excel_clean i batch =
      map (\<lambda>(k, tx). if k < length cats
                       then tx\<lparr>Category := JStr (cats ! k), Subcategory := first_word (cats ! k)\<rparr>
                       else tx)
          (zip [0 ..< 0 + length batch] batch)"
    by (simp add: categorize_batch_def apply_categories_strings)
  show "length (categorize_batch ai excel_clean i batch) = length batch"
    unfolding r by simp
  show "\<forall>k < length batch.
         categorize_batch ai excel_clean i batch ! k =
           (if k < length cats
            then (batch ! k)\<lparr>Category := JStr (cats ! k), Subcategory := first_word (cats ! k)\<rparr>
            else batch ! k)"
    unfolding r by simp
qed

theorem batches_prompt_positional_witness:
  "key_present \<lparr>api_key = Some ''key'', classify = (\<lambda>lines. Some ''answer''),
                   json_loads = (\<lambda>text. Some (JArr (map JStr [''Transportation''])))\<rparr> \<and>
   ai_categorize_transactions
     \<lparr>api_key = Some ''key'', classify = (\<lambda>lines. Some ''answer''),
      json_loads = (\<lambda>text. Some (JArr (map JStr [''Transportation''])))\<rparr>
     [\<lparr>Date = ''2024-02-01'', Amount = Finite (- 20), Description = ''Lyft ride'',
       Category = JStr ''Other Expenses'', Subcategory = ''Miscellaneous''\<rparr>,
      \<lparr>Date = ''2024-02-02'', Amount = Finite 5000, Description = ''Salary'',
       Category = JStr ''Other Expenses'', Subcategory = ''Miscellaneous''\<rparr>]
   = [\<lparr>Date = ''2024-02-01'', Amount = Finite (- 20), Description = ''Lyft ride'',
       Category = JStr ''Transportation'', Subcategory = ''Transportation''\<rparr>,
      \<lparr>Date = ''2024-02-02'', Amount = Finite 5000, Description = ''Salary'',
       Category = JStr ''Other Expenses'', Subcategory = ''Miscellaneous''\<rparr>]"
proof -
  let ?ai = "\<lparr>api_key = Some ''key'', classify = (\<lambda>lines. Some ''answer''),
              json_loads = (\<lambda>text. Some (JArr (map JStr [''Transportation''])))\<rparr>"
  let ?a = "\<lparr>Date = ''2024-02-01'', Amount = Finite (- 20), Description = ''Lyft ride'',
       Category = JStr ''Other Expenses'', Subcategory = ''Miscellaneous''\<rparr>"
  let ?b = "\<lparr>Date = ''2024-02-02'', Amount = Finite 5000, Description = ''Salary'',
       Category = JStr ''Other Expenses'', Subcategory = ''Miscellaneous''\<rparr>"
  have k: "key_present ?ai" by (simp add: key_present_def)
  have c: "classify ?ai (take 30 (describe_batch 0 [?a, ?b])) = Some ''answer'' \<and>
    json_loads ?ai (excel_clean (strip ''answer'')) = Some (JArr (map JStr [''Transportation'']))"
    by simp
  have f: "first_word ''Transportation'' = ''Transportation''" by code_simp
  note t = batches_prompt_positional [of ?ai "[?a, ?b]" 0 "[?a, ?b]" "''answer''" "[''Transportation'']"]
  from t k have whole: "ai_categorize_transactions ?ai [?a, ?b] =
      categorize_batch ?ai excel_clean 0 [?a, ?b]"
    by simp
  from t c have len: "length (categorize_batch ?ai excel_clean 0 [?a, ?b]) = 2"
    and el: "\<forall>k<2. categorize_batch ?ai excel_clean 0 [?a, ?b] ! k =
       (if k < 1 then ([?a, ?b] ! k)\<lparr>Category := JStr ([''Transportation''] ! k),
                                         Subcategory := first_word ([''Transportation''] ! k)\<rparr>
        else [?a, ?b] ! k)"
    by simp_all
  from el have e0: "categorize_batch ?ai excel_clean 0 [?a, ?b] ! 0 =
      ?a\<lparr>Category := JStr ''Transportation'', Subcategory := ''Transportation''\<rparr>"
    and e1: "categorize_batch ?ai excel_clean 0 [?a, ?b] ! 1 = ?b"
    by (simp_all add: f)
  from len e0 e1 have "categorize_batch ?ai excel_clean 0 [?a, ?b] =
      [?a\<lparr>Category := JStr ''Transportation'', Subcategory := ''Transportation''\<rparr>, ?b]"
    by (intro nth_equalityI) (auto simp: less_Suc_eq numeral_2_eq_2)
  with whole k show ?thesis by simp
qed

subsection \<open>Date normalizer\<close>






















subsection \<open>Format detector: the window of rows\<close>

lemma header_row_at_most_19:
  assumes "header_row (find_data_headers ws) = Some r"
  shows "r \<le> 19"
  using scan_header_rows_cases [of ws "header_rows ws"] assms
  by (auto simp: find_data_headers_def header_rows_def default_map_def)

text \<open>
  Claim C5: the format detector scans rows 1 through 20 and returns the first row with at
  least three header cells, or the default map. The loop runs over
  \<^verbatim>\<open>range(1, min(20, max_row + 1))\<close>, which ends at row 19 (lemma
  \<open>header_row_at_most_19\<close>): a sheet whose header is in row 20 gets the default map, with
  \<^verbatim>\<open>header_row = 1\<close>, while the same header in row 19 is found.
\<close>

theorem header_in_row_20_not_found:
  "find_data_headers
     (sheet_of_rows (replicate 19 [] @ [[CStr ''Date'', CStr ''Description'', CStr ''Amount'']]))
   = default_map \<and>
   find_data_headers
     (sheet_of_rows (replicate 18 [] @ [[CStr ''Date'', CStr ''Description'', CStr ''Amount'']]))
   = \<lparr>header_row = Some 19, date_col = Some 1, description_col = Some 2, type_col = None,
      reference_col = None, debit_col = None, credit_col = None, amount_col = Some 3\<rparr>"
  by code_simp


subsection \<open>Format detector: the role of a column\<close>











subsection \<open>Transaction builder: summary rows\<close>




subsection \<open>Transaction builder: the sign of the amount\<close>







subsection \<open>Subcategory\<close>

lemma builder_subcategory:
  assumes "build_row pf today ws cm n row = Some tx"
  shows "Category tx = JStr (excel_categorize_transaction (Description tx)) \<and>
         Subcategory tx = subcategory_of (excel_categorize_transaction (Description tx))"
  using assms
  by (auto simp: build_row_def Let_def split: if_splits option.splits)

text \<open>
  Claim C9: every transaction has the first word of its category as subcategory, and
  \<^verbatim>\<open>Miscellaneous\<close> when the category is \<^verbatim>\<open>Other Expenses\<close>. The builder does so (lemma
  \<open>builder_subcategory\<close>). The AI categorization batcher, in both processors, assigns
  \<^verbatim>\<open>ai_categories[idx].split(' ')[0]\<close> without the test for the catch-all: a transaction
  that the classifier puts in \<^verbatim>\<open>Other Expenses\<close> gets the subcategory \<^verbatim>\<open>Other\<close>.
\<close>

theorem ai_other_expenses_subcategory:
  "ai_categorize_transactions
     \<lparr>api_key = Some ''key'',
      classify = (\<lambda>lines. Some (''['' @ quoted ''Other Expenses'' @ '']'')),
      json_loads = (\<lambda>text. if text = ''['' @ quoted ''Other Expenses'' @ '']''
                             then Some (JArr [JStr ''Other Expenses'']) else None)\<rparr>
     [\<lparr>Date = ''2024-02-01'', Amount = Finite (- 20), Description = ''Uber trip'',
       Category = JStr ''Transportation'', Subcategory = ''Transportation''\<rparr>]
   = [\<lparr>Date = ''2024-02-01'', Amount = Finite (- 20), Description = ''Uber trip'',
       Category = JStr ''Other Expenses'', Subcategory = ''Other''\<rparr>] \<and>
   pdf_ai_categorize_transactions
     \<lparr>api_key = Some ''key'',
      classify = (\<lambda>lines. Some (''['' @ quoted ''Other Expenses'' @ '']'')),
      json_loads = (\<lambda>text. if text = ''['' @ quoted ''Other Expenses'' @ '']''
                             then Some (JArr [JStr ''Other Expenses'']) else None)\<rparr>
     [\<lparr>Date = ''2024-02-01'', Amount = Finite (- 20), Description = ''Uber trip'',
       Category = JStr ''Transportation'', Subcategory = ''Transportation''\<rparr>]
   = [\<lparr>Date = ''2024-02-01'', Amount = Finite (- 20), Description = ''Uber trip'',
       Category = JStr ''Other Expenses'', Subcategory = ''Other''\<rparr>] \<and>
   subcategory_of ''Other Expenses'' = ''Miscellaneous''"
  by code_simp

theorem ai_other_expenses_subcategory_witness:
  "key_present
     \<lparr>api_key = Some ''key'',
      classify = (\<lambda>lines. Some (''['' @ quoted ''Other Expenses'' @ '']'')),
      json_loads = (\<lambda>text. if text = ''['' @ quoted ''Other Expenses'' @ '']''
                             then Some (JArr [JStr ''Other Expenses'']) else None)\<rparr> \<and>
   map Subcategory (ai_categorize_transactions
     \<lparr>api_key = Some ''key'',
      classify = (\<lambda>lines. Some (''['' @ quoted ''Other Expenses'' @ '']'')),
      json_loads = (\<lambda>text. if text = ''['' @ quoted ''Other Expenses'' @ '']''
                             then Some (JArr [JStr ''Other Expenses'']) else None)\<rparr>
     [\<lparr>Date = ''2024-02-01'', Amount = Finite (- 20), Description = ''Uber trip'',
       Category = JStr ''Transportation'', Subcategory = ''Transportation''\<rparr>]) = [''Other'']"
  using ai_other_expenses_subcategory by (simp add: key_present_def)

subsection \<open>The two rule-based categorizers\<close>

lemma py_in_trans: "py_in a b \<Longrightarrow> py_in b c \<Longrightarrow> py_in a c"
  unfolding py_in_def by (rule sublist_order.order.trans)

lemma excel_priority_keys: "\<forall>c \<in> set category_priority. map_of excel_categories c \<noteq> None"
  by (simp add: category_priority_def excel_categories_def)

lemma pdf_priority_keys: "\<forall>c \<in> set category_priority. map_of pdf_categories c \<noteq> None"
  by (simp add: category_priority_def pdf_categories_def)

lemma excel_scan_keywords_iff:
  "excel_scan_keywords c ks d \<longleftrightarrow> any_in ks d \<and> excel_guard c d"
  by (induction ks) (auto simp: any_in_def)

lemma excel_scan_categories_mem: "excel_scan_categories cs d = Some c \<Longrightarrow> c \<in> set cs"
  by (induction cs) (auto split: if_splits)

lemma pdf_scan_categories_mem: "pdf_scan_categories cs d = Some c \<Longrightarrow> c \<in> set cs"
  by (induction cs) (auto split: if_splits)

lemma scan_merchants_range:
  "scan_merchants ms d = ''Other Expenses'' \<or> scan_merchants ms d \<in> snd ` set ms"
  by (induction ms d rule: scan_merchants.induct) auto

lemma merchant_labels: "snd ` set merchant_patterns \<subseteq> set category_priority"
  by (simp add: merchant_patterns_def category_priority_def)

lemma excel_label: "excel_categorize_transaction d \<in> set rule_labels"
proof -
  let ?dl = "strip (lower d)"
  show ?thesis
  proof (cases "excel_scan_categories category_priority ?dl")
    case (Some c)
    then show ?thesis
      using excel_scan_categories_mem [OF Some]
      by (simp add: excel_categorize_transaction_def rule_labels_def)
  next
    case None
    have m: "scan_merchants merchant_patterns ?dl \<in> set rule_labels"
      using scan_merchants_range [of merchant_patterns ?dl] merchant_labels
      by (auto simp: rule_labels_def)
    have "''Transportation'' \<in> set rule_labels" "''Food & Dining'' \<in> set rule_labels"
      "''Shopping & Retail'' \<in> set rule_labels"
      by (simp_all add: rule_labels_def category_priority_def)
    with None m show ?thesis
      by (simp add: excel_categorize_transaction_def Let_def)
  qed
qed

lemma pdf_label: "pdf_categorize_transaction d \<in> set rule_labels"
  by (cases "pdf_scan_categories category_priority (strip (lower d))")
     (auto simp: pdf_categorize_transaction_def rule_labels_def Let_def dest: pdf_scan_categories_mem)

lemma excel_atm_keywords:
  "keywords_of excel_categories ''ATM & Cash Withdrawals'' =
     [''atm'', ''cash withdrawal'', ''withdrawal'', ''atm withdrawal'', ''cash advance'',
      ''atm fee'', ''withdrawal fee'']"
  by (simp add: keywords_of_def excel_categories_def)

lemma pdf_atm_keywords:
  "keywords_of pdf_categories ''ATM & Cash Withdrawals'' =
     [''atm'', ''cash withdrawal'', ''withdrawal'', ''cash advance'']"
  by (simp add: keywords_of_def pdf_categories_def)

lemma atm_sub:
  "py_in ''withdrawal'' ''cash withdrawal''" "py_in ''atm'' ''atm withdrawal''"
  "py_in ''atm'' ''atm fee''" "py_in ''withdrawal'' ''withdrawal fee''"
  "py_in ''cash'' ''cash advance''"
  by (simp_all add: py_in_def sublist_Cons_right)

lemma excel_atm_condition:
  "excel_scan_keywords ''ATM & Cash Withdrawals''
     (keywords_of excel_categories ''ATM & Cash Withdrawals'') d
   \<longleftrightarrow> any_in [''atm'', ''withdrawal'', ''cash advance''] d"
  unfolding excel_scan_keywords_iff excel_atm_keywords
  by (auto simp: any_in_def excel_guard_def intro: py_in_trans atm_sub)

lemma pdf_atm_condition:
  "any_in (keywords_of pdf_categories ''ATM & Cash Withdrawals'') d
   \<longleftrightarrow> any_in [''atm'', ''withdrawal'', ''cash advance''] d"
  unfolding pdf_atm_keywords
  by (auto simp: any_in_def intro: py_in_trans atm_sub)

lemma excel_atm_iff:
  "excel_categorize_transaction d = ''ATM & Cash Withdrawals''
   \<longleftrightarrow> any_in [''atm'', ''withdrawal'', ''cash advance''] (strip (lower d))"
proof -
  let ?dl = "strip (lower d)" and ?A = "''ATM & Cash Withdrawals''"
  let ?rest = "tl category_priority"
  have cp: "category_priority = ?A # ?rest" by (simp add: category_priority_def)
  have notin: "?A \<notin> set ?rest" by (simp add: category_priority_def)
  have nm: "scan_merchants merchant_patterns ?dl \<noteq> ?A"
    using scan_merchants_range [of merchant_patterns ?dl]
    by (auto simp: merchant_patterns_def)
  show ?thesis
  proof (cases "any_in [''atm'', ''withdrawal'', ''cash advance''] ?dl")
    case True
    then have "excel_scan_categories category_priority ?dl = Some ?A"
      by (subst cp) (simp add: excel_atm_condition)
    with True show ?thesis by (simp add: excel_categorize_transaction_def Let_def)
  next
    case False
    then have r: "excel_scan_categories category_priority ?dl = excel_scan_categories ?rest ?dl"
      by (subst cp) (simp add: excel_atm_condition)
    have "excel_categorize_transaction d \<noteq> ?A"
    proof (cases "excel_scan_categories ?rest ?dl")
      case None
      with r nm show ?thesis by (simp add: excel_categorize_transaction_def Let_def)
    next
      case (Some c)
      with excel_scan_categories_mem [OF Some] notin have "c \<noteq> ?A" by auto
      with r Some show ?thesis by (simp add: excel_categorize_transaction_def Let_def)
    qed
    with False show ?thesis by simp
  qed
qed

lemma pdf_atm_iff:
  "pdf_categorize_transaction d = ''ATM & Cash Withdrawals''
   \<longleftrightarrow> any_in [''atm'', ''withdrawal'', ''cash advance''] (strip (lower d))"
proof -
  let ?dl = "strip (lower d)" and ?A = "''ATM & Cash Withdrawals''"
  let ?rest = "tl category_priority"
  have cp: "category_priority = ?A # ?rest" by (simp add: category_priority_def)
  have notin: "?A \<notin> set ?rest" by (simp add: category_priority_def)
  show ?thesis
  proof (cases "any_in [''atm'', ''withdrawal'', ''cash advance''] ?dl")
    case True
    then have "pdf_scan_categories category_priority ?dl = Some ?A"
      by (subst cp) (simp add: pdf_atm_condition)
    with True show ?thesis by (simp add: pdf_categorize_transaction_def Let_def)
  next
    case False
    then have r: "pdf_scan_categories category_priority ?dl = pdf_scan_categories ?rest ?dl"
      by (subst cp) (simp add: pdf_atm_condition)
    have "pdf_categorize_transaction d \<noteq> ?A"
    proof (cases "pdf_scan_categories ?rest ?dl")
      case None
      with r show ?thesis by (simp add: pdf_categorize_transaction_def Let_def)
    next
      case (Some c)
      with pdf_scan_categories_mem [OF Some] notin have "c \<noteq> ?A" by auto
      with r Some show ?thesis by (simp add: pdf_categorize_transaction_def Let_def)
    qed
    with False show ?thesis by simp
  qed
qed

text \<open>
  Claim C10, as stated: the Excel and the PDF rule-based categorizer return the same
  category for every description. It fails at the description \<^verbatim>\<open>loan\<close>: the keyword
  \<^verbatim>\<open>loan\<close> is in both Banking and Finance lists, the PDF categorizer returns that
  category at once, while the Excel categorizer asks for one of transfer, fee, charge,
  interest, maintenance as well, finds none and ends at the catch-all.
\<close>

theorem categorizers_differ_counterexample:
  "excel_categorize_transaction ''loan'' = ''Other Expenses'' \<and>
   pdf_categorize_transaction ''loan'' = ''Banking & Finance'' \<and>
   excel_categorize_transaction ''loan'' \<noteq> pdf_categorize_transaction ''loan''"
  by code_simp

text \<open>
  Claim C10, amended: the two categorizers are different functions over the same label
  set. Both return, for every description, one of the ten categories of the priority
  list or \<^verbatim>\<open>Other Expenses\<close>, and they return \<^verbatim>\<open>ATM & Cash Withdrawals\<close> on exactly the
  same descriptions: those whose lowercased, stripped text contains \<^verbatim>\<open>atm\<close>,
  \<^verbatim>\<open>withdrawal\<close> or \<^verbatim>\<open>cash advance\<close>.
\<close>

theorem categorizers_agree_on_atm:
  "excel_categorize_transaction d \<in> set rule_labels \<and>
   pdf_categorize_transaction d \<in> set rule_labels \<and>
   (excel_categorize_transaction d = ''ATM & Cash Withdrawals'' \<longleftrightarrow>
      pdf_categorize_transaction d = ''ATM & Cash Withdrawals'') \<and>
   (excel_categorize_transaction d = ''ATM & Cash Withdrawals'' \<longleftrightarrow>
      any_in [''atm'', ''withdrawal'', ''cash advance''] (strip (lower d)))"
  using excel_label [of d] pdf_label [of d] excel_atm_iff [of d] pdf_atm_iff [of d]
  by blast

end
